theory Spec2Isabelle
  imports Main "HOL-Library.Word" "HOL-Library.Sublist"
begin

section \<open>JavaScript strings\<close>

text \<open>
  A JavaScript string is a sequence of 16-bit code units. Source literals are written
  with \<open>js\<close>, which maps each (ASCII) character of an Isabelle string to its code unit.
\<close>

type_synonym code_unit = "16 word"
type_synonym jsstring = "code_unit list"

definition js :: "string \<Rightarrow> jsstring" where
  "js s = map (\<lambda>c. of_nat (of_char c)) s"

text \<open>
  \<open>String.prototype.trim\<close> removes the code units of the ECMAScript productions
  WhiteSpace and LineTerminator from both ends.
\<close>

definition is_white_space :: "code_unit \<Rightarrow> bool" where
  "is_white_space c =
     (c = 0x09 \<or> c = 0x0A \<or> c = 0x0B \<or> c = 0x0C \<or> c = 0x0D \<or> c = 0x20 \<or> c = 0xA0
      \<or> c = 0x1680 \<or> (0x2000 \<le> c \<and> c \<le> 0x200A) \<or> c = 0x2028 \<or> c = 0x2029
      \<or> c = 0x202F \<or> c = 0x205F \<or> c = 0x3000 \<or> c = 0xFEFF)"

definition trim :: "jsstring \<Rightarrow> jsstring" where
  "trim s = rev (dropWhile is_white_space (rev (dropWhile is_white_space s)))"

definition startsWith :: "jsstring \<Rightarrow> jsstring \<Rightarrow> bool" where
  "startsWith s p = prefix p s"


section \<open>JSON values and \<open>JSON.parse\<close>\<close>

text \<open>
  The values \<open>JSON.parse\<close> can return. A number keeps the text of its literal (the
  Number it denotes is the double nearest to that decimal), and an object keeps its
  members in source order, duplicates included; both are finer than JavaScript's own
  equality, so values equal here are equal there.
\<close>

datatype json =
    JNull
  | JBool bool
  | JNumber jsstring
  | JString jsstring
  | JArray "json list"
  | JObject "(jsstring \<times> json) list"

subsection \<open>The lexical grammar, as an automaton over code units\<close>

datatype token =
    TLBrace | TRBrace | TLBrack | TRBrack | TComma | TColon
  | TString jsstring | TNumber jsstring | TTrue | TFalse | TNull

text \<open>
  Number literals: \<open>-? (0 | [1-9][0-9]*) (. [0-9]+)? ([eE] [+-]? [0-9]+)?\<close>.
  A state says what has been read so far.
\<close>

datatype nstate = NMinus | NZero | NInt | NDot | NFrac | NExp | NExpSign | NExpDig

text \<open>The literals \<open>true\<close>, \<open>false\<close> and \<open>null\<close>: the letters read so far.\<close>

datatype litpos = Lt | Ltr | Ltru | Lf | Lfa | Lfal | Lfals | Ln | Lnu | Lnul

text \<open>
  Lexer states: between tokens; inside a string (content so far, reversed); after a
  backslash; inside a \<open>\uXXXX\<close> escape (digits read, value so far); inside a number
  (literal so far, reversed); inside a literal name.
\<close>

datatype lstate =
    LStart
  | LStr jsstring
  | LEsc jsstring
  | LHex jsstring nat code_unit
  | LNum nstate jsstring
  | LLit litpos

definition is_json_ws :: "code_unit \<Rightarrow> bool" where
  "is_json_ws c = (c = 0x09 \<or> c = 0x0A \<or> c = 0x0D \<or> c = 0x20)"

definition is_digit :: "code_unit \<Rightarrow> bool" where
  "is_digit c = (0x30 \<le> c \<and> c \<le> 0x39)"

definition is_hex :: "code_unit \<Rightarrow> bool" where
  "is_hex c = (is_digit c \<or> (0x41 \<le> c \<and> c \<le> 0x46) \<or> (0x61 \<le> c \<and> c \<le> 0x66))"

definition hex_val :: "code_unit \<Rightarrow> code_unit" where
  "hex_val c = (if is_digit c then c - 0x30 else if c \<le> 0x46 then c - 0x37 else c - 0x57)"

definition is_exp_mark :: "code_unit \<Rightarrow> bool" where
  "is_exp_mark c = (c = 0x65 \<or> c = 0x45)"

fun num_step :: "nstate \<Rightarrow> code_unit \<Rightarrow> nstate option" where
  "num_step NMinus c =
     (if c = 0x30 then Some NZero else if is_digit c then Some NInt else None)"
| "num_step NZero c =
     (if c = 0x2E then Some NDot else if is_exp_mark c then Some NExp else None)"
| "num_step NInt c =
     (if is_digit c then Some NInt else if c = 0x2E then Some NDot
      else if is_exp_mark c then Some NExp else None)"
| "num_step NDot c = (if is_digit c then Some NFrac else None)"
| "num_step NFrac c =
     (if is_digit c then Some NFrac else if is_exp_mark c then Some NExp else None)"
| "num_step NExp c =
     (if c = 0x2B \<or> c = 0x2D then Some NExpSign else if is_digit c then Some NExpDig else None)"
| "num_step NExpSign c = (if is_digit c then Some NExpDig else None)"
| "num_step NExpDig c = (if is_digit c then Some NExpDig else None)"

fun num_final :: "nstate \<Rightarrow> bool" where
  "num_final NZero = True"
| "num_final NInt = True"
| "num_final NFrac = True"
| "num_final NExpDig = True"
| "num_final _ = False"

fun lit_step :: "litpos \<Rightarrow> code_unit \<Rightarrow> (lstate \<times> token list) option" where
  "lit_step Lt c = (if c = 0x72 then Some (LLit Ltr, []) else None)"
| "lit_step Ltr c = (if c = 0x75 then Some (LLit Ltru, []) else None)"
| "lit_step Ltru c = (if c = 0x65 then Some (LStart, [TTrue]) else None)"
| "lit_step Lf c = (if c = 0x61 then Some (LLit Lfa, []) else None)"
| "lit_step Lfa c = (if c = 0x6C then Some (LLit Lfal, []) else None)"
| "lit_step Lfal c = (if c = 0x73 then Some (LLit Lfals, []) else None)"
| "lit_step Lfals c = (if c = 0x65 then Some (LStart, [TFalse]) else None)"
| "lit_step Ln c = (if c = 0x75 then Some (LLit Lnu, []) else None)"
| "lit_step Lnu c = (if c = 0x6C then Some (LLit Lnul, []) else None)"
| "lit_step Lnul c = (if c = 0x6C then Some (LStart, [TNull]) else None)"

text \<open>The first code unit of a token, or white space between tokens.\<close>

definition start_step :: "code_unit \<Rightarrow> (lstate \<times> token list) option" where
  "start_step c =
     (if is_json_ws c then Some (LStart, [])
      else if c = 0x7B then Some (LStart, [TLBrace])
      else if c = 0x7D then Some (LStart, [TRBrace])
      else if c = 0x5B then Some (LStart, [TLBrack])
      else if c = 0x5D then Some (LStart, [TRBrack])
      else if c = 0x2C then Some (LStart, [TComma])
      else if c = 0x3A then Some (LStart, [TColon])
      else if c = 0x22 then Some (LStr [], [])
      else if c = 0x2D then Some (LNum NMinus [c], [])
      else if c = 0x30 then Some (LNum NZero [c], [])
      else if is_digit c then Some (LNum NInt [c], [])
      else if c = 0x74 then Some (LLit Lt, [])
      else if c = 0x66 then Some (LLit Lf, [])
      else if c = 0x6E then Some (LLit Ln, [])
      else None)"

text \<open>
  One code unit. A string may hold any code unit but the quote, the backslash and the
  control characters below U+0020; a number ends at the first code unit that cannot
  continue it, which then starts the next token.
\<close>

fun lex_step :: "lstate \<Rightarrow> code_unit \<Rightarrow> (lstate \<times> token list) option" where
  "lex_step LStart c = start_step c"
| "lex_step (LStr acc) c =
     (if c = 0x22 then Some (LStart, [TString (rev acc)])
      else if c = 0x5C then Some (LEsc acc, [])
      else if c < 0x20 then None
      else Some (LStr (c # acc), []))"
| "lex_step (LEsc acc) c =
     (if c = 0x22 \<or> c = 0x5C \<or> c = 0x2F then Some (LStr (c # acc), [])
      else if c = 0x62 then Some (LStr (0x08 # acc), [])
      else if c = 0x66 then Some (LStr (0x0C # acc), [])
      else if c = 0x6E then Some (LStr (0x0A # acc), [])
      else if c = 0x72 then Some (LStr (0x0D # acc), [])
      else if c = 0x74 then Some (LStr (0x09 # acc), [])
      else if c = 0x75 then Some (LHex acc 0 0, [])
      else None)"
| "lex_step (LHex acc n v) c =
     (if is_hex c then
        (if n = 3 then Some (LStr ((16 * v + hex_val c) # acc), [])
         else Some (LHex acc (Suc n) (16 * v + hex_val c), []))
      else None)"
| "lex_step (LNum n acc) c =
     (case num_step n c of
        Some n' \<Rightarrow> Some (LNum n' (c # acc), [])
      | None \<Rightarrow>
          if num_final n then
            (case start_step c of
               None \<Rightarrow> None
             | Some (st, ts) \<Rightarrow> Some (st, TNumber (rev acc) # ts))
          else None)"
| "lex_step (LLit p) c = lit_step p c"

fun lex_end :: "lstate \<Rightarrow> token list option" where
  "lex_end LStart = Some []"
| "lex_end (LNum n acc) = (if num_final n then Some [TNumber (rev acc)] else None)"
| "lex_end _ = None"

fun lex_from :: "lstate \<Rightarrow> jsstring \<Rightarrow> token list option" where
  "lex_from st [] = lex_end st"
| "lex_from st (c # cs) =
     (case lex_step st c of
        None \<Rightarrow> None
      | Some (st', out) \<Rightarrow>
          (case lex_from st' cs of None \<Rightarrow> None | Some ts \<Rightarrow> Some (out @ ts)))"

subsection \<open>The syntactic grammar, as a stack machine over tokens\<close>

text \<open>
  A frame is a container being read: an array (elements so far, reversed), an object
  between members (members so far, reversed), or an object whose next member has its
  key and waits for the value.
\<close>

datatype frame =
    FArr "json list"
  | FObj "(jsstring \<times> json) list"
  | FMember "(jsstring \<times> json) list" jsstring

datatype expect =
    EValue | EValueOrEnd | EKeyOrEnd | EKey | EColon jsstring | ECommaOrEnd | EDone json

type_synonym pstate = "frame list \<times> expect"

fun put_value :: "json \<Rightarrow> frame list \<Rightarrow> pstate option" where
  "put_value v [] = Some ([], EDone v)"
| "put_value v (FArr xs # fs) = Some (FArr (v # xs) # fs, ECommaOrEnd)"
| "put_value v (FMember ms k # fs) = Some (FObj ((k, v) # ms) # fs, ECommaOrEnd)"
| "put_value v (FObj ms # fs) = None"

fun begin_value :: "frame list \<Rightarrow> token \<Rightarrow> pstate option" where
  "begin_value fs TLBrace = Some (FObj [] # fs, EKeyOrEnd)"
| "begin_value fs TLBrack = Some (FArr [] # fs, EValueOrEnd)"
| "begin_value fs (TString s) = put_value (JString s) fs"
| "begin_value fs (TNumber n) = put_value (JNumber n) fs"
| "begin_value fs TTrue = put_value (JBool True) fs"
| "begin_value fs TFalse = put_value (JBool False) fs"
| "begin_value fs TNull = put_value JNull fs"
| "begin_value fs _ = None"

fun close_array :: "frame list \<Rightarrow> pstate option" where
  "close_array (FArr xs # fs) = put_value (JArray (rev xs)) fs"
| "close_array _ = None"

fun close_object :: "frame list \<Rightarrow> pstate option" where
  "close_object (FObj ms # fs) = put_value (JObject (rev ms)) fs"
| "close_object _ = None"

fun parse_step :: "pstate \<Rightarrow> token \<Rightarrow> pstate option" where
  "parse_step (fs, EValue) t = begin_value fs t"
| "parse_step (fs, EValueOrEnd) t = (if t = TRBrack then close_array fs else begin_value fs t)"
| "parse_step (fs, EKeyOrEnd) t =
     (case t of TString k \<Rightarrow> Some (fs, EColon k) | TRBrace \<Rightarrow> close_object fs | _ \<Rightarrow> None)"
| "parse_step (fs, EKey) t = (case t of TString k \<Rightarrow> Some (fs, EColon k) | _ \<Rightarrow> None)"
| "parse_step (fs, EColon k) t =
     (case (t, fs) of (TColon, FObj ms # fs') \<Rightarrow> Some (FMember ms k # fs', EValue) | _ \<Rightarrow> None)"
| "parse_step (fs, ECommaOrEnd) t =
     (case (t, fs) of
        (TComma, FArr xs # fs') \<Rightarrow> Some (fs, EValue)
      | (TComma, FObj ms # fs') \<Rightarrow> Some (fs, EKey)
      | (TRBrack, _) \<Rightarrow> close_array fs
      | (TRBrace, _) \<Rightarrow> close_object fs
      | _ \<Rightarrow> None)"
| "parse_step (fs, EDone v) t = None"

fun parse_from :: "pstate \<Rightarrow> token list \<Rightarrow> json option" where
  "parse_from (fs, e) [] = (case (fs, e) of ([], EDone v) \<Rightarrow> Some v | _ \<Rightarrow> None)"
| "parse_from ps (t # ts) =
     (case parse_step ps t of None \<Rightarrow> None | Some ps' \<Rightarrow> parse_from ps' ts)"

text \<open>
  \<open>JSON.parse(text)\<close>: the value, or \<open>None\<close> where JavaScript throws a SyntaxError.
\<close>

definition JSON_parse :: "jsstring \<Rightarrow> json option" where
  "JSON_parse s =
     (case lex_from LStart s of None \<Rightarrow> None | Some ts \<Rightarrow> parse_from ([], EValue) ts)"


section \<open>The response parser (services/geminiService: parseJson)\<close>

text \<open>
  The regular expression \<open>/```json\n|\n```/g\<close>: the two alternatives, as code units.
\<close>

definition FENCE_OPEN :: jsstring where
  "FENCE_OPEN = [0x60, 0x60, 0x60, 0x6A, 0x73, 0x6F, 0x6E, 0x0A]"

definition FENCE_CLOSE :: jsstring where
  "FENCE_CLOSE = [0x0A, 0x60, 0x60, 0x60]"

text \<open>
  \<open>text.replace(/```json\n|\n```/g, "")\<close>: scanning from the left, every match is
  dropped and the scan goes on after it.
\<close>

function replace_fences :: "jsstring \<Rightarrow> jsstring" where
  "replace_fences [] = []"
| "replace_fences (c # cs) =
     (if prefix FENCE_OPEN (c # cs)
        then replace_fences (drop (length FENCE_OPEN) (c # cs))
      else if prefix FENCE_CLOSE (c # cs)
        then replace_fences (drop (length FENCE_CLOSE) (c # cs))
      else c # replace_fences cs)"
  by pat_completeness auto
termination
  by (relation "measure length") (auto simp: FENCE_OPEN_def FENCE_CLOSE_def)

definition cleanText :: "jsstring \<Rightarrow> jsstring" where
  "cleanText text = trim (replace_fences text)"

text \<open>
  \<open>parseJson\<close>: the \<open>try\<close> block returns the parsed value; the \<open>catch\<close> block returns
  the empty array. (The \<open>console.error\<close> of the catch block is not modelled.)
\<close>

definition parseJson :: "jsstring \<Rightarrow> json" where
  "parseJson text = (case JSON_parse (cleanText text) of Some v \<Rightarrow> v | None \<Rightarrow> JArray [])"


section \<open>The transcript view (components/TranscriptionDisplay)\<close>

text \<open>
  The component function reads \<open>data.summary\<close> and calls \<open>data.segments.map\<close> with a
  callback that reads \<open>segment.speaker\<close> and the other fields of every element.
  Reading a property of \<open>null\<close> throws a TypeError; reading a property a value does not
  have gives \<open>undefined\<close>, and calling \<open>.map\<close> on anything but an array throws a
  TypeError. Of duplicate members of an object the last one is the property. The result
  is the list of segments the callback ran on, or the exception. (What React does with
  the elements the function returns is not part of it.)
\<close>

datatype js_exception = TypeError

definition rendered_segments :: "json \<Rightarrow> js_exception + json list" where
  "rendered_segments data =
     (case data of
        JObject ms \<Rightarrow>
          (case map_of (rev ms) (js ''segments'') of
             Some (JArray segs) \<Rightarrow> if JNull \<in> set segs then Inl TypeError else Inr segs
           | _ \<Rightarrow> Inl TypeError)
      | _ \<Rightarrow> Inl TypeError)"


section \<open>The request (services/geminiService: transcribeAudio)\<close>

subsection \<open>The output schema\<close>

datatype schema_type = OBJECT | ARRAY | STRING

datatype schema =
  Schema (s_type: schema_type)
         (s_description: "string option")
         (s_properties: "(string \<times> schema) list")
         (s_items: "schema option")
         (s_required: "string list option")
         (s_enum: "string list option")

definition property :: "schema \<Rightarrow> string \<Rightarrow> schema option" where
  "property s k = map_of (s_properties s) k"

text \<open>
  Modelled from the spec: the enumeration \<open>Emotion\<close> is declared in the module
  \<open>types\<close>, which is not among the sources. The spec gives it as the closed set
  Happy, Sad, Angry, Neutral; the component above switches on exactly these four
  members and the prompt below names the same four. \<open>Object.values(Emotion)\<close> is
  the list of the members' values.
\<close>

datatype Emotion = Happy | Sad | Angry | Neutral

fun Emotion_value :: "Emotion \<Rightarrow> string" where
  "Emotion_value Happy = ''Happy''"
| "Emotion_value Sad = ''Sad''"
| "Emotion_value Angry = ''Angry''"
| "Emotion_value Neutral = ''Neutral''"

definition Object_values_Emotion :: "string list" where
  "Object_values_Emotion = map Emotion_value [Happy, Sad, Angry, Neutral]"

definition string_schema :: schema where
  "string_schema = Schema STRING None [] None None None"

definition segment_schema :: schema where
  "segment_schema =
     Schema OBJECT None
       [(''speaker'', string_schema),
        (''timestamp'', string_schema),
        (''content'', string_schema),
        (''language'', string_schema),
        (''language_code'', string_schema),
        (''translation'', string_schema),
        (''emotion'',
           Schema STRING (Some ''The emotion of the speaker.'') [] None None
             (Some Object_values_Emotion))]
       None
       (Some [''speaker'', ''timestamp'', ''content'', ''language'', ''language_code'',
              ''emotion''])
       None"

definition responseSchema :: schema where
  "responseSchema =
     Schema OBJECT None
       [(''summary'',
           Schema STRING (Some ''A concise summary of the audio content.'') [] None None None),
        (''segments'',
           Schema ARRAY (Some ''List of transcribed segments with speaker and timestamp.'') []
             (Some segment_schema) None None)]
       None
       (Some [''summary'', ''segments''])
       None"

subsection \<open>The prompt\<close>

definition prompt_lines :: "string list" where
  "prompt_lines =
     ['''',
      ''    You are an expert audio transcription assistant.'',
      ''    Process the provided audio file and generate a detailed transcription.'',
      ''    '',
      ''    Requirements:'',
      ''    1. Identify distinct speakers (e.g., Speaker 1, Speaker 2, or names if context allows).'',
      ''    2. Provide accurate timestamps for each segment (Format: MM:SS).'',
      ''    3. Detect the primary language of each segment.'',
      ''    4. If the segment is in a language different than English, also provide the English translation.'',
      ''    5. Identify the primary emotion of the speaker in this segment. You MUST choose exactly one of the following: Happy, Sad, Angry, Neutral.'',
      ''    6. Provide a brief summary of the entire audio at the beginning.'',
      ''    '',
      ''    Output Format: JSON object with the following structure:'',
      ''    {'',
      ''      \"summary\": \"A brief summary of the conversation...\",'',
      ''      \"segments\": ['',
      ''        {'',
      ''          \"speaker\": \"Speaker 1\",'',
      ''          \"timestamp\": \"00:00 - 00:15\",'',
      ''          \"content\": \"Hello, how are you doing today?\",'',
      ''          \"language\": \"English\",'',
      ''          \"language_code\": \"en\",'',
      ''          \"translation\": \"\",'',
      ''          \"emotion\": \"Happy\"'',
      ''        },'',
      ''        ...'',
      ''      ]'',
      ''    }'',
      ''  '']"

fun join_lines :: "string list \<Rightarrow> string" where
  "join_lines [] = []"
| "join_lines [l] = l"
| "join_lines (l # ls) = l @ CHR 0x0A # join_lines ls"

definition prompt :: string where
  "prompt = join_lines prompt_lines"

subsection \<open>The call\<close>

text \<open>
  The argument of \<open>ai.models.generateContent\<close>. The audio is the caller's
  \<open>base64Audio\<close>, which is \<open>undefined\<close> (\<open>None\<close>) where the uploader found no
  comma in the data URL.
\<close>

record request =
  model :: string
  inlineData_mimeType :: jsstring
  inlineData_data :: "jsstring option"
  prompt_text :: string
  responseMimeType :: string
  config_responseSchema :: schema

definition modelId :: string where
  "modelId = ''gemini-3-flash-preview''"

definition build_request :: "jsstring option \<Rightarrow> jsstring \<Rightarrow> request" where
  "build_request base64Audio mimeType =
     \<lparr> model = modelId,
       inlineData_mimeType = mimeType,
       inlineData_data = base64Audio,
       prompt_text = prompt,
       responseMimeType = ''application/json'',
       config_responseSchema = responseSchema \<rparr>"

text \<open>
  What \<open>transcribeAudio\<close> throws: an \<open>Error\<close> it constructs itself, with its message,
  or whatever the service call threw, passed on unchanged by the \<open>catch\<close> block.
\<close>

datatype 'e thrown = JsError string | ServiceError 'e

definition API_KEY_MISSING :: string where
  "API_KEY_MISSING = ''API Key is missing. Please ensure process.env.API_KEY is available.''"

definition NO_RESPONSE_TEXT :: string where
  "NO_RESPONSE_TEXT = ''No response text received from Gemini.''"

text \<open>A string or \<open>undefined\<close> is falsy when it is \<open>undefined\<close> or empty.\<close>

fun falsy_string :: "jsstring option \<Rightarrow> bool" where
  "falsy_string None = True"
| "falsy_string (Some s) = (s = [])"

text \<open>
  \<open>transcribeAudio\<close>, given \<open>process.env.API_KEY\<close> and the service call
  (\<open>generateContent\<close>: the \<open>text\<close> of the response, or the error it throws).
  The result comes with the list of the calls made to the service, in order, so that
  "before any network attempt" can be stated. (\<open>console.error\<close> is not modelled.)
\<close>

definition transcribeAudio ::
  "jsstring option \<Rightarrow> (request \<Rightarrow> 'e + jsstring option) \<Rightarrow> jsstring option \<Rightarrow> jsstring
   \<Rightarrow> ('e thrown + json) \<times> request list" where
  "transcribeAudio API_KEY generateContent base64Audio mimeType =
     (if falsy_string API_KEY then (Inl (JsError API_KEY_MISSING), [])
      else
        let req = build_request base64Audio mimeType in
        (case generateContent req of
           Inl e \<Rightarrow> (Inl (ServiceError e), [req])
         | Inr response_text \<Rightarrow>
             (case response_text of
                None \<Rightarrow> (Inl (JsError NO_RESPONSE_TEXT), [req])
              | Some t \<Rightarrow>
                  if t = [] then (Inl (JsError NO_RESPONSE_TEXT), [req])
                  else (Inr (parseJson t), [req]))))"


section \<open>The file uploader (components/FileUploader)\<close>

record File =
  file_name :: jsstring
  file_type :: jsstring
  file_bytes :: "8 word list"

text \<open>The \<open>AudioData\<close> handed to \<open>onFileSelected\<close>.\<close>

record AudioData =
  blob :: File
  base64 :: "jsstring option"
  mimeType :: jsstring

text \<open>
  The component's own state: \<open>dragActive\<close>, \<open>fileName\<close> and the value of the hidden
  input element behind \<open>inputRef\<close>.
\<close>

record uploader =
  dragActive :: bool
  fileName :: "jsstring option"
  input_value :: jsstring

text \<open>What a handler does besides updating that state.\<close>

datatype uploader_effect = Alert string | ReadAsDataURL File

definition processFile :: "File \<Rightarrow> uploader \<Rightarrow> uploader \<times> uploader_effect list" where
  "processFile f up =
     (if \<not> startsWith (file_type f) (js ''audio/'') \<and> \<not> startsWith (file_type f) (js ''video/'')
      then (up, [Alert ''Please upload a valid audio file.''])
      else (up\<lparr>fileName := Some (file_name f)\<rparr>, [ReadAsDataURL f]))"

text \<open>
  \<open>base64String.split(',')[1]\<close>: the text between the first comma and the second,
  \<open>undefined\<close> when there is no comma.
\<close>

definition split_comma_1 :: "jsstring \<Rightarrow> jsstring option" where
  "split_comma_1 s =
     (case dropWhile (\<lambda>c. c \<noteq> 0x2C) s of
        [] \<Rightarrow> None
      | _ # r \<Rightarrow> Some (takeWhile (\<lambda>c. c \<noteq> 0x2C) r))"

text \<open>
  \<open>reader.onloadend\<close>, given \<open>reader.result\<close> (\<open>null\<close> when the read failed, and then
  \<open>.split\<close> throws): the argument of the call of \<open>onFileSelected\<close>.
\<close>

definition reader_onloadend :: "File \<Rightarrow> jsstring option \<Rightarrow> js_exception + AudioData" where
  "reader_onloadend f reader_result =
     (case reader_result of
        None \<Rightarrow> Inl TypeError
      | Some base64String \<Rightarrow>
          Inr \<lparr> blob = f, base64 = split_comma_1 base64String, mimeType = file_type f \<rparr>)"

text \<open>
  The payloads \<open>onFileSelected\<close> receives when \<open>processFile\<close> runs on a file and each
  read it started ends with \<open>reader_result\<close>.
\<close>

fun effect_payloads :: "jsstring option \<Rightarrow> uploader_effect \<Rightarrow> AudioData list" where
  "effect_payloads reader_result (ReadAsDataURL f) =
     (case reader_onloadend f reader_result of Inr d \<Rightarrow> [d] | Inl _ \<Rightarrow> [])"
| "effect_payloads reader_result (Alert _) = []"

definition processFile_payloads :: "File \<Rightarrow> jsstring option \<Rightarrow> uploader \<Rightarrow> AudioData list" where
  "processFile_payloads f reader_result up =
     concat (map (effect_payloads reader_result) (snd (processFile f up)))"

datatype drag_event = dragenter | dragover | dragleave

fun handleDrag :: "drag_event \<Rightarrow> uploader \<Rightarrow> uploader" where
  "handleDrag dragleave up = up\<lparr>dragActive := False\<rparr>"
| "handleDrag _ up = up\<lparr>dragActive := True\<rparr>"

fun handleDrop :: "File list \<Rightarrow> uploader \<Rightarrow> uploader \<times> uploader_effect list" where
  "handleDrop [] up = (up\<lparr>dragActive := False\<rparr>, [])"
| "handleDrop (f # _) up = processFile f (up\<lparr>dragActive := False\<rparr>)"

fun handleChange :: "File list \<Rightarrow> uploader \<Rightarrow> uploader \<times> uploader_effect list" where
  "handleChange [] up = (up, [])"
| "handleChange (f # _) up = processFile f up"

definition handleClear :: "uploader \<Rightarrow> uploader" where
  "handleClear up = up\<lparr>fileName := None, input_value := []\<rparr>"


section \<open>The session (App)\<close>

text \<open>
  The values \<open>App\<close> gives to its \<open>status\<close> (the declaration of \<open>AppStatus\<close> is in
  the module \<open>types\<close>, not among the sources) and to its \<open>mode\<close>.
\<close>

datatype AppStatus = Idle | Processing | Success | Error

datatype Mode = ModeRecord | ModeUpload

text \<open>
  The state variables of \<open>App\<close>. \<open>result\<close> holds whatever \<open>transcribeAudio\<close> resolved
  to (the cast to \<open>TranscriptionResponse\<close> checks nothing), \<open>JNull\<close> for \<open>null\<close>.
\<close>

record app_state =
  mode :: Mode
  status :: AppStatus
  audioData :: "AudioData option"
  result :: json
  error :: "string option"
  isDarkMode :: bool

definition initial_state :: "bool \<Rightarrow> app_state" where
  "initial_state prefers_dark =
     \<lparr> mode = ModeRecord, status = Idle, audioData = None, result = JNull, error = None,
       isDarkMode = prefers_dark \<rparr>"

definition handleAudioReady :: "AudioData \<Rightarrow> app_state \<Rightarrow> app_state" where
  "handleAudioReady data s = s\<lparr>audioData := Some data, error := None, result := JNull\<rparr>"

definition handleReset :: "app_state \<Rightarrow> app_state" where
  "handleReset s = s\<lparr>audioData := None, result := JNull, status := Idle, error := None\<rparr>"

definition toggleDarkMode :: "app_state \<Rightarrow> app_state" where
  "toggleDarkMode s = s\<lparr>isDarkMode := \<not> isDarkMode s\<rparr>"

definition TRANSCRIPTION_FAILED :: string where
  "TRANSCRIPTION_FAILED = ''An error occurred during transcription. Please try again.''"

text \<open>
  \<open>handleTranscribe\<close> is asynchronous. Up to the \<open>await\<close> it runs at once: it returns
  without effect when there is no payload, and otherwise sets the status and starts the
  call of \<open>transcribeAudio\<close> (returned here by its arguments).
\<close>

type_synonym call = "jsstring option \<times> jsstring"

definition handleTranscribe_begin :: "app_state \<Rightarrow> app_state \<times> call option" where
  "handleTranscribe_begin s =
     (case audioData s of
        None \<Rightarrow> (s, None)
      | Some d \<Rightarrow> (s\<lparr>status := Processing, error := None\<rparr>, Some (base64 d, mimeType d)))"

text \<open>
  When the call settles, the rest of the \<open>try\<close> block or the \<open>catch\<close> block runs, on
  the state of that moment.
\<close>

definition handleTranscribe_settle :: "'e thrown + json \<Rightarrow> app_state \<Rightarrow> app_state" where
  "handleTranscribe_settle outcome s =
     (case outcome of
        Inr data \<Rightarrow> s\<lparr>result := data, status := Success\<rparr>
      | Inl err \<Rightarrow> s\<lparr>error := Some TRANSCRIPTION_FAILED, status := Error\<rparr>)"

text \<open>The whole handler, when nothing else happens while the call is awaited.\<close>

definition handleTranscribe ::
  "jsstring option \<Rightarrow> (request \<Rightarrow> 'e + jsstring option) \<Rightarrow> app_state
   \<Rightarrow> app_state \<times> request list" where
  "handleTranscribe API_KEY generateContent s =
     (case handleTranscribe_begin s of
        (s', None) \<Rightarrow> (s', [])
      | (s', Some (base64Audio, mime)) \<Rightarrow>
          (case transcribeAudio API_KEY generateContent base64Audio mime of
             (outcome, calls) \<Rightarrow> (handleTranscribe_settle outcome s', calls)))"

subsection \<open>What is rendered\<close>

text \<open>
  JavaScript truthiness of a JSON value. A number literal denotes zero when the double
  nearest to its decimal value is zero: its digits are all zero, or its magnitude is at
  most \<open>2\<^sup>-\<^sup>1\<^sup>0\<^sup>7\<^sup>5\<close>, half the least positive double.
\<close>

definition digits_val :: "jsstring \<Rightarrow> int" where
  "digits_val ds = foldl (\<lambda>a c. 10 * a + uint (c - 0x30)) 0 (filter is_digit ds)"

definition number_is_zero :: "jsstring \<Rightarrow> bool" where
  "number_is_zero lit =
     (let mantissa = takeWhile (\<lambda>c. \<not> is_exp_mark c) lit;
          exponent = drop 1 (dropWhile (\<lambda>c. \<not> is_exp_mark c) lit);
          int_part = takeWhile (\<lambda>c. c \<noteq> 0x2E) mantissa;
          frac_part = drop 1 (dropWhile (\<lambda>c. c \<noteq> 0x2E) mantissa);
          m = digits_val (int_part @ frac_part);
          k = int (length frac_part);
          e = (if take 1 exponent = [0x2D] then - digits_val exponent else digits_val exponent)
      in m = 0 \<or> (e < k \<and> m * 2 ^ 1075 \<le> 10 ^ nat (k - e)))"

fun truthy :: "json \<Rightarrow> bool" where
  "truthy JNull = False"
| "truthy (JBool b) = b"
| "truthy (JNumber n) = (\<not> number_is_zero n)"
| "truthy (JString s) = (s \<noteq> [])"
| "truthy (JArray _) = True"
| "truthy (JObject _) = True"

text \<open>The sections of the page, by the conditions of the JSX.\<close>

definition error_banner :: "app_state \<Rightarrow> bool" where
  "error_banner s = (status s = Error \<and> error s \<noteq> None \<and> error s \<noteq> Some [])"

definition tabs_section :: "app_state \<Rightarrow> bool" where
  "tabs_section s = (\<not> truthy (result s))"

definition input_section :: "app_state \<Rightarrow> bool" where
  "input_section s = (\<not> truthy (result s) \<and> status s \<noteq> Processing)"

definition processing_section :: "app_state \<Rightarrow> bool" where
  "processing_section s = (status s = Processing)"

definition results_section :: "app_state \<Rightarrow> bool" where
  "results_section s = (truthy (result s) \<and> status s = Success)"

text \<open>
  The controls of \<open>App\<close> that call its handlers, and when a click reaches the handler:
  the control is rendered and not disabled. (The component \<open>Button\<close> is not among the
  sources; it is taken to pass a click on to \<open>onClick\<close> when it is not loading.)
\<close>

datatype control = TabRecord | TabUpload | GenerateTranscript | StartOver | DarkModeToggle

fun control_enabled :: "app_state \<Rightarrow> control \<Rightarrow> bool" where
  "control_enabled s TabRecord = (tabs_section s \<and> status s \<noteq> Processing)"
| "control_enabled s TabUpload = (tabs_section s \<and> status s \<noteq> Processing)"
| "control_enabled s GenerateTranscript = (input_section s \<and> audioData s \<noteq> None)"
| "control_enabled s StartOver = results_section s"
| "control_enabled s DarkModeToggle = True"

subsection \<open>Runs of the page\<close>

text \<open>
  React gives the JSX and the handlers the state of the last committed render; a
  setter only queues its value for the next render. A run therefore has the state as
  last rendered, the state with every update made so far applied (what the next render
  will show), and the calls of \<open>transcribeAudio\<close> that have not settled yet.
\<close>

record system =
  rendered :: app_state
  app :: app_state
  in_flight :: "call list"

definition initial_system :: "bool \<Rightarrow> system" where
  "initial_system prefers_dark =
     \<lparr> rendered = initial_state prefers_dark, app = initial_state prefers_dark,
       in_flight = [] \<rparr>"

text \<open>
  The handlers that read a state variable, as created by the render \<open>r\<close> and run when
  the updated state is \<open>s\<close>: what they read is \<open>r\<close>'s, what they set goes to \<open>s\<close>.
  (\<open>handleTranscribe_begin\<close> and \<open>toggleDarkMode\<close> above are these with nothing
  queued, \<open>r = s\<close>; the other handlers only set.)
\<close>

definition handleTranscribe_begin_from :: "app_state \<Rightarrow> app_state \<Rightarrow> app_state \<times> call option" where
  "handleTranscribe_begin_from r s =
     (case audioData r of
        None \<Rightarrow> (s, None)
      | Some d \<Rightarrow> (s\<lparr>status := Processing, error := None\<rparr>, Some (base64 d, mimeType d)))"

definition toggleDarkMode_from :: "app_state \<Rightarrow> app_state \<Rightarrow> app_state" where
  "toggleDarkMode_from r s = s\<lparr>isDarkMode := \<not> isDarkMode r\<rparr>"

text \<open>
  A click on a control: nothing happens unless the control is enabled in the last
  render; otherwise that render's \<open>onClick\<close> runs.
\<close>

fun click :: "control \<Rightarrow> system \<Rightarrow> system" where
  "click c sys =
     (if \<not> control_enabled (rendered sys) c then sys
      else case c of
        TabRecord \<Rightarrow> sys\<lparr>app := handleReset ((app sys)\<lparr>mode := ModeRecord\<rparr>)\<rparr>
      | TabUpload \<Rightarrow> sys\<lparr>app := handleReset ((app sys)\<lparr>mode := ModeUpload\<rparr>)\<rparr>
      | GenerateTranscript \<Rightarrow>
          (case handleTranscribe_begin_from (rendered sys) (app sys) of
             (s', None) \<Rightarrow> sys\<lparr>app := s'\<rparr>
           | (s', Some cl) \<Rightarrow> sys\<lparr>app := s', in_flight := in_flight sys @ [cl]\<rparr>)
      | StartOver \<Rightarrow> sys\<lparr>app := handleReset (app sys)\<rparr>
      | DarkModeToggle \<Rightarrow> sys\<lparr>app := toggleDarkMode_from (rendered sys) (app sys)\<rparr>)"

text \<open>React renders: the updated state becomes the rendered one.\<close>

definition commit :: "system \<Rightarrow> system" where
  "commit sys = sys\<lparr>rendered := app sys\<rparr>"

text \<open>A capture is delivered: \<open>handleAudioReady\<close> runs (it only sets).\<close>

definition capture :: "AudioData \<Rightarrow> system \<Rightarrow> system" where
  "capture d sys = sys\<lparr>app := handleAudioReady d (app sys)\<rparr>"

text \<open>The oldest call in flight settles: the rest of its \<open>handleTranscribe\<close> runs.\<close>

definition settle_first :: "unit thrown + json \<Rightarrow> system \<Rightarrow> system" where
  "settle_first outcome sys =
     sys\<lparr>app := handleTranscribe_settle outcome (app sys), in_flight := tl (in_flight sys)\<rparr>"




subsection \<open>The uploader on the page\<close>

text \<open>
  The uploader keeps its state to itself: \<open>App\<close> hands it \<open>onFileSelected\<close> and
  \<open>disabled\<close>, and its Remove button calls \<open>handleClear\<close>, which calls neither.
\<close>

record page =
  session :: app_state
  file_uploader :: uploader

definition click_remove_file :: "page \<Rightarrow> page" where
  "click_remove_file pg = pg\<lparr>file_uploader := handleClear (file_uploader pg)\<rparr>"


section \<open>Concrete inputs\<close>

definition example_file :: File where
  "example_file =
     \<lparr> file_name = js ''talk.wav'', file_type = js ''audio/wav'',
       file_bytes = [0x52, 0x49, 0x46, 0x46] \<rparr>"

definition example_text_file :: File where
  "example_text_file =
     \<lparr> file_name = js ''notes.txt'', file_type = js ''text/plain'', file_bytes = [0x68, 0x69] \<rparr>"

definition example_payload :: AudioData where
  "example_payload =
     \<lparr> blob = example_file, base64 = Some (js ''UklGRg==''), mimeType = js ''audio/wav'' \<rparr>"

definition example_payload2 :: AudioData where
  "example_payload2 =
     \<lparr> blob = example_file\<lparr>file_name := js ''second.wav''\<rparr>, base64 = Some (js ''AAAA''),
       mimeType = js ''audio/wav'' \<rparr>"

text \<open>The JSON text \<open>{"summary":"hi","segments":[]}\<close> and its value.\<close>

definition example_json_text :: jsstring where
  "example_json_text = js ''{\"summary\":\"hi\",\"segments\":[]}''"

definition example_response :: json where
  "example_response = JObject [(js ''summary'', JString (js ''hi'')), (js ''segments'', JArray [])]"

text \<open>
  A session that holds a payload; the same session with a request in flight; and the
  session after two clicks on Generate Transcript with no render between them.
\<close>

definition example_ready :: system where
  "example_ready = commit (capture example_payload (initial_system False))"

definition example_processing :: system where
  "example_processing = commit (click GenerateTranscript example_ready)"




text \<open>The page after \<open>talk.wav\<close> was picked and read.\<close>

definition example_page :: page where
  "example_page =
     \<lparr> session = app example_ready,
       file_uploader =
         \<lparr> dragActive = False, fileName = Some (js ''talk.wav''), input_value = js ''talk.wav'' \<rparr> \<rparr>"


section \<open>Properties of the lexer\<close>

text \<open>
  A text the lexer accepts holds neither alternative of the fence pattern: a line feed
  is never inside a string, a backquote is never outside one.
\<close>

lemma num_step_None:
  "\<not> is_digit c \<Longrightarrow> c \<noteq> 0x2E \<Longrightarrow> \<not> is_exp_mark c \<Longrightarrow> c \<noteq> 0x2B \<Longrightarrow> c \<noteq> 0x2D
   \<Longrightarrow> num_step n c = None"
  by (cases n) (auto simp: is_digit_def)

lemma lit_step_None:
  "c \<noteq> 0x72 \<Longrightarrow> c \<noteq> 0x75 \<Longrightarrow> c \<noteq> 0x65 \<Longrightarrow> c \<noteq> 0x61 \<Longrightarrow> c \<noteq> 0x6C \<Longrightarrow> c \<noteq> 0x73
   \<Longrightarrow> lit_step p c = None"
  by (cases p) simp_all

lemma lex_step_newline:
  "lex_step st 0x0A = Some (st', out) \<Longrightarrow> st' = LStart"
  by (cases st)
     (auto simp: start_step_def is_json_ws_def is_digit_def is_hex_def is_exp_mark_def
        num_step_None lit_step_None split: if_splits)

lemma start_step_backtick: "start_step 0x60 = None"
  by (simp add: start_step_def is_json_ws_def is_digit_def)

lemma lex_step_backtick:
  "lex_step st 0x60 = Some (st', out) \<Longrightarrow> (\<exists>acc. st = LStr acc \<and> st' = LStr (0x60 # acc))"
  by (cases st)
     (auto simp: start_step_def is_json_ws_def is_digit_def is_hex_def is_exp_mark_def
        num_step_None lit_step_None split: if_splits)

lemma lex_from_skip: "(\<And>st'. lex_from st' r = None) \<Longrightarrow> lex_from st (c # r) = None"
  by (simp split: option.splits)

lemma lex_close: "lex_from st (0x0A # 0x60 # r) = None"
  by (auto simp: start_step_backtick split: option.splits dest!: lex_step_newline)

lemma lex_str_plain:
  "c \<noteq> 0x22 \<Longrightarrow> c \<noteq> 0x5C \<Longrightarrow> \<not> c < 0x20 \<Longrightarrow>
   lex_from (LStr acc) (c # r) = lex_from (LStr (c # acc)) r"
  by (simp split: option.splits)

lemma lex_str_newline: "lex_from (LStr acc) (0x0A # r) = None"
  by simp

lemma lex_tag: "lex_from st (0x60 # 0x6A # 0x73 # 0x6F # 0x6E # 0x0A # r) = None"
proof (cases "lex_step st 0x60")
  case None
  then show ?thesis by simp
next
  case (Some a)
  obtain st' out where a: "a = (st', out)" by (cases a)
  from Some a obtain acc where "st' = LStr (0x60 # acc)"
    using lex_step_backtick by blast
  then have "lex_from st' (0x6A # 0x73 # 0x6F # 0x6E # 0x0A # r) = None"
    by (simp add: lex_str_plain lex_str_newline del: lex_from.simps(2))
  with Some a show ?thesis
    by simp
qed

lemma lex_open: "lex_from st (FENCE_OPEN @ r) = None"
  unfolding FENCE_OPEN_def append_Cons append_Nil
  by (intro lex_from_skip lex_tag)

lemma lex_open_cut: "lex_from st [0x60, 0x60, 0x60, 0x6A, 0x73, 0x6F, 0x6E] = None"
proof (cases "lex_step st 0x60")
  case None
  then show ?thesis by simp
next
  case (Some a)
  obtain st' out where a: "a = (st', out)" by (cases a)
  from Some a obtain acc where "st' = LStr (0x60 # acc)"
    using lex_step_backtick by blast
  with Some a show ?thesis
    by simp
qed

lemma no_close_at_head:
  assumes "lex_from st u \<noteq> None" and "u \<noteq> []" and "t = [] \<or> t = FENCE_CLOSE"
  shows "\<not> prefix FENCE_CLOSE (u @ t)"
proof
  assume p: "prefix FENCE_CLOSE (u @ t)"
  from assms(2) obtain c u1 where u: "u = c # u1" by (cases u) auto
  with p have c: "c = 0x0A" and p1: "prefix [0x60, 0x60, 0x60] (u1 @ t)"
    by (simp_all add: FENCE_CLOSE_def)
  show False
  proof (cases u1)
    case Nil
    with p1 assms(3) show False by (auto simp: FENCE_CLOSE_def)
  next
    case (Cons d u2)
    with p1 have "d = 0x60" by simp
    with u c Cons assms(1) show False by (simp only: lex_close not_None_eq) simp
  qed
qed

lemma open_split:
  assumes "FENCE_OPEN = u @ us" and "prefix us t" and "t = [] \<or> t = FENCE_CLOSE"
  shows "u = FENCE_OPEN \<or> u = [0x60, 0x60, 0x60, 0x6A, 0x73, 0x6F, 0x6E]"
proof -
  from assms(2,3) have "us = [] \<or> us = [0x0A] \<or> us = [0x0A, 0x60] \<or> us = [0x0A, 0x60, 0x60]
      \<or> us = [0x0A, 0x60, 0x60, 0x60]"
    by (auto simp: FENCE_CLOSE_def prefix_Cons)
  with assms(1) show ?thesis
    by (auto simp: FENCE_OPEN_def Cons_eq_append_conv)
qed

lemma no_open_at_head:
  assumes "lex_from st u \<noteq> None" and "t = [] \<or> t = FENCE_CLOSE"
  shows "\<not> prefix FENCE_OPEN (u @ t)"
proof
  assume "prefix FENCE_OPEN (u @ t)"
  then have "prefix FENCE_OPEN u \<or> (\<exists>us. FENCE_OPEN = u @ us \<and> prefix us t)"
    by (simp add: prefix_append)
  then consider r where "u = FENCE_OPEN @ r" | us where "FENCE_OPEN = u @ us" "prefix us t"
    by (auto elim: prefixE)
  then show False
  proof cases
    case 1
    with assms(1) show False by (simp add: lex_open)
  next
    case 2
    with assms(2) have "u = FENCE_OPEN @ [] \<or> u = [0x60, 0x60, 0x60, 0x6A, 0x73, 0x6F, 0x6E]"
      using open_split by simp
    with assms(1) show False
      using lex_open [of st "[]"] lex_open_cut [of st] by auto
  qed
qed

lemma lex_from_tail:
  "lex_from st (c # cs) \<noteq> None \<Longrightarrow> \<exists>st'. lex_from st' cs \<noteq> None"
  by (fastforce split: option.splits)

lemma replace_fences_lexable:
  "lex_from st u \<noteq> None \<Longrightarrow> t = [] \<or> t = FENCE_CLOSE \<Longrightarrow> replace_fences (u @ t) = u"
proof (induction u arbitrary: st)
  case Nil
  then show ?case by (auto simp: FENCE_CLOSE_def FENCE_OPEN_def)
next
  case (Cons c cs)
  from Cons.prems have a: "\<not> prefix FENCE_OPEN ((c # cs) @ t)"
    by (rule no_open_at_head)
  from Cons.prems have b: "\<not> prefix FENCE_CLOSE ((c # cs) @ t)"
    by (intro no_close_at_head) auto
  from Cons.prems(1) obtain st' where "lex_from st' cs \<noteq> None"
    using lex_from_tail by blast
  then have "replace_fences (cs @ t) = cs"
    using Cons.prems(2) by (rule Cons.IH)
  with a b show ?case by simp
qed

lemma replace_fences_open: "replace_fences (FENCE_OPEN @ w) = replace_fences w"
  by (simp add: FENCE_OPEN_def)

text \<open>White space at either end does not change the tokens.\<close>

lemma white_space_range: "is_white_space c \<Longrightarrow> c \<le> 0x20 \<or> 0xA0 \<le> c"
  unfolding is_white_space_def by (auto simp: word_le_nat_alt)

lemma white_space_start:
  assumes "is_white_space c" and "start_step c = Some x"
  shows "x = (LStart, [])"
proof -
  from assms(1) have "c \<le> 0x20 \<or> 0xA0 \<le> c" by (rule white_space_range)
  with assms(2) show ?thesis
    by (auto simp: start_step_def is_digit_def word_le_nat_alt split: if_splits)
qed

lemma white_space_num: "is_white_space c \<Longrightarrow> num_step n c = None"
  by (rule num_step_None; drule white_space_range)
     (auto simp: is_digit_def is_exp_mark_def word_le_nat_alt)

lemma white_space_lit: "is_white_space c \<Longrightarrow> lit_step p c = None"
  by (rule lit_step_None; drule white_space_range) (auto simp: word_le_nat_alt)

lemma white_space_in_string:
  assumes "is_white_space c"
  shows "\<exists>st. (st = None \<or> st = Some (LStr (c # acc), [])) \<and> lex_step (LStr acc) c = st"
    and "lex_step (LEsc acc) c = None"
    and "lex_step (LHex acc n v) c = None"
proof -
  from assms have r: "c \<le> 0x20 \<or> 0xA0 \<le> c" by (rule white_space_range)
  then show "\<exists>st. (st = None \<or> st = Some (LStr (c # acc), [])) \<and> lex_step (LStr acc) c = st"
    by (auto simp: word_le_nat_alt)
  from r show "lex_step (LEsc acc) c = None"
    by (auto simp: word_le_nat_alt)
  from r show "lex_step (LHex acc n v) c = None"
    by (auto simp: is_hex_def is_digit_def word_le_nat_alt)
qed

lemma white_space_last_step:
  assumes "is_white_space c" and "lex_from st [c] = Some ts"
  shows "lex_end st = Some ts"
proof (cases st)
  case LStart
  with assms show ?thesis
    by (auto split: option.splits dest: white_space_start)
next
  case (LStr acc)
  with assms(2) white_space_in_string(1) [OF assms(1), of acc] show ?thesis
    by (auto simp del: lex_step.simps split: option.splits)
next
  case (LEsc acc)
  with assms(2) white_space_in_string(2) [OF assms(1), of acc] show ?thesis
    by (simp del: lex_step.simps)
next
  case (LHex acc n v)
  with assms(2) white_space_in_string(3) [OF assms(1), of acc n v] show ?thesis
    by (simp del: lex_step.simps)
next
  case (LNum n acc)
  with assms show ?thesis
    by (auto simp: white_space_num split: option.splits if_splits dest: white_space_start)
next
  case (LLit p)
  with assms show ?thesis by (simp add: white_space_lit)
qed

lemma lex_from_drop_last:
  "is_white_space c \<Longrightarrow> lex_from st (s @ [c]) = Some ts \<Longrightarrow> lex_from st s = Some ts"
proof (induction s arbitrary: st ts)
  case Nil
  then show ?case using white_space_last_step [of c st ts] by simp
next
  case (Cons d s)
  from Cons.prems(2) obtain st' out ts' where
    step: "lex_step st d = Some (st', out)" and rest: "lex_from st' (s @ [c]) = Some ts'"
    and ts: "ts = out @ ts'"
    by (auto split: option.splits)
  from Cons.prems(1) rest have "lex_from st' s = Some ts'" by (rule Cons.IH)
  with step ts show ?case by simp
qed

lemma lex_from_drop_trailing:
  "lex_from st s = Some ts \<Longrightarrow> lex_from st (rev (dropWhile is_white_space (rev s))) = Some ts"
proof (induction s rule: rev_induct)
  case Nil
  then show ?case by simp
next
  case (snoc c s)
  show ?case
  proof (cases "is_white_space c")
    case True
    from True snoc.prems have "lex_from st s = Some ts" by (rule lex_from_drop_last)
    with True snoc.IH show ?thesis by simp
  next
    case False
    with snoc.prems show ?thesis by simp
  qed
qed

lemma lex_from_drop_leading:
  "lex_from LStart s = Some ts \<Longrightarrow> lex_from LStart (dropWhile is_white_space s) = Some ts"
proof (induction s)
  case Nil
  then show ?case by simp
next
  case (Cons c s)
  show ?case
  proof (cases "is_white_space c")
    case True
    with Cons.prems have "lex_from LStart s = Some ts"
      by (auto split: option.splits dest: white_space_start)
    with True Cons.IH show ?thesis by simp
  next
    case False
    with Cons.prems show ?thesis by simp
  qed
qed

lemma lex_from_trim: "lex_from LStart s = Some ts \<Longrightarrow> lex_from LStart (trim s) = Some ts"
  unfolding trim_def by (intro lex_from_drop_trailing lex_from_drop_leading)

lemma JSON_parse_trim: "JSON_parse s = Some v \<Longrightarrow> JSON_parse (trim s) = Some v"
  by (auto simp: JSON_parse_def lex_from_trim split: option.splits)

lemma JSON_parse_lexable: "JSON_parse s = Some v \<Longrightarrow> lex_from LStart s \<noteq> None"
  by (auto simp: JSON_parse_def split: option.splits)

lemma cleanText_fenced:
  "JSON_parse j = Some v \<Longrightarrow> cleanText (FENCE_OPEN @ j @ FENCE_CLOSE) = trim j"
  using replace_fences_lexable [of LStart j FENCE_CLOSE]
  by (simp add: cleanText_def replace_fences_open JSON_parse_lexable
        del: replace_fences.simps)

lemma cleanText_plain: "JSON_parse j = Some v \<Longrightarrow> cleanText j = trim j"
  using replace_fences_lexable [of LStart j "[]"]
  by (simp add: cleanText_def JSON_parse_lexable del: replace_fences.simps)


section \<open>The response parser\<close>

lemma example_json_parses: "JSON_parse example_json_text = Some example_response"
  unfolding example_json_text_def example_response_def by code_simp

lemma parseJson_unparseable:
  "JSON_parse (cleanText raw) = None \<Longrightarrow> parseJson raw = JArray []"
  by (simp add: parseJson_def)

text \<open>
  C1. On raw text that is not JSON the parser does not throw, but what it returns is
  not the object \<open>{ summary: "", segments: [] }\<close>: on the text \<open>not json\<close> it returns
  the empty array, a value whose \<open>segments\<close> the transcript view cannot map over.
\<close>

theorem parseJson_not_json:
  "parseJson (js ''not json'') = JArray [] \<and>
   parseJson (js ''not json'') \<noteq>
     JObject [(js ''summary'', JString []), (js ''segments'', JArray [])] \<and>
   rendered_segments (parseJson (js ''not json'')) = Inl TypeError"
  by code_simp

text \<open>
  C9. A valid JSON text wrapped as \<open>```json\n\<close> ... \<open>\n```\<close> is parsed to the value of
  the text itself, and so is the text without the wrapping.
\<close>

theorem parseJson_json_fence:
  "JSON_parse j = Some v \<Longrightarrow>
     parseJson (FENCE_OPEN @ j @ FENCE_CLOSE) = v \<and> parseJson j = v"
  by (simp add: parseJson_def cleanText_fenced cleanText_plain JSON_parse_trim)

theorem parseJson_json_fence_witness:
  "JSON_parse example_json_text = Some example_response \<and>
   parseJson (FENCE_OPEN @ example_json_text @ FENCE_CLOSE) = example_response \<and>
   parseJson example_json_text = example_response"
  using example_json_parses parseJson_json_fence [OF example_json_parses] by simp

text \<open>
  A fence without the language tag is not stripped: \<open>```\n{}\n```\<close> loses only its
  closing marker, the rest is not JSON, and the parser returns the empty array where
  the payload \<open>{}\<close> is the empty object.
\<close>

theorem parseJson_plain_fence_counterexample:
  "JSON_parse (js ''{}'') = Some (JObject []) \<and>
   parseJson (js ''{}'') = JObject [] \<and>
   parseJson ([0x60, 0x60, 0x60, 0x0A] @ js ''{}'' @ [0x0A, 0x60, 0x60, 0x60]) = JArray []"
  by code_simp


section \<open>The request\<close>

text \<open>
  C2. Whatever the audio, the schema sent with the request requires of every segment
  its speaker, timestamp, content, language, language_code and emotion, and allows for
  emotion exactly Happy, Sad, Angry and Neutral.
\<close>

theorem request_schema_segment_fields:
  "\<exists>segments segment emotion.
     property (config_responseSchema (build_request base64Audio mime)) ''segments''
       = Some segments \<and>
     s_items segments = Some segment \<and>
     s_required segment =
       Some [''speaker'', ''timestamp'', ''content'', ''language'', ''language_code'',
             ''emotion''] \<and>
     property segment ''emotion'' = Some emotion \<and>
     s_enum emotion = Some [''Happy'', ''Sad'', ''Angry'', ''Neutral'']"
  by (simp add: build_request_def responseSchema_def segment_schema_def property_def
        Object_values_Emotion_def)

lemma transcribeAudio_with_key_calls_once:
  "\<not> falsy_string API_KEY \<Longrightarrow>
   snd (transcribeAudio API_KEY generateContent base64Audio mime) =
     [build_request base64Audio mime]"
  by (simp add: transcribeAudio_def Let_def split: sum.splits option.splits)

text \<open>
  C6. Without a credential (\<open>process.env.API_KEY\<close> undefined or empty)
  \<open>transcribeAudio\<close> fails with its own "API Key is missing" error and has called the
  service not once; that error is neither an error passed on from the service nor the
  error for an empty response.
\<close>

theorem missing_credential_fails_first:
  assumes "falsy_string API_KEY"
  shows "transcribeAudio API_KEY generateContent base64Audio mime =
           (Inl (JsError API_KEY_MISSING), []) \<and>
         JsError API_KEY_MISSING \<noteq> ServiceError e \<and>
         (JsError API_KEY_MISSING :: 'e thrown) \<noteq> JsError NO_RESPONSE_TEXT"
  using assms by (simp add: transcribeAudio_def API_KEY_MISSING_def NO_RESPONSE_TEXT_def)

theorem missing_credential_fails_first_witness:
  "falsy_string None \<and>
   transcribeAudio None (\<lambda>req. Inr (Some example_json_text) :: unit + jsstring option)
       (base64 example_payload) (mimeType example_payload) =
     (Inl (JsError API_KEY_MISSING), []) \<and>
   JsError API_KEY_MISSING \<noteq> ServiceError () \<and>
   (JsError API_KEY_MISSING :: unit thrown) \<noteq> JsError NO_RESPONSE_TEXT"
  using missing_credential_fails_first
    [where API_KEY = None
       and generateContent = "\<lambda>req. Inr (Some example_json_text) :: unit + jsstring option"
       and base64Audio = "base64 example_payload" and mime = "mimeType example_payload"
       and e = "()"]
  by simp


section \<open>The uploader\<close>

text \<open>
  C7. A file whose type starts with neither \<open>audio/\<close> nor \<open>video/\<close> is answered with
  the alert alone: the uploader's state is as before, no read is started, and
  \<open>onFileSelected\<close> receives no payload, whether the file was picked or dropped.
\<close>

theorem non_media_file_rejected:
  assumes "\<not> startsWith (file_type f) (js ''audio/'')"
    and "\<not> startsWith (file_type f) (js ''video/'')"
  shows "processFile f up = (up, [Alert ''Please upload a valid audio file.'']) \<and>
         processFile_payloads f reader_result up = [] \<and>
         handleChange (f # fs) up = (up, [Alert ''Please upload a valid audio file.'']) \<and>
         handleDrop (f # fs) up =
           (up\<lparr>dragActive := False\<rparr>, [Alert ''Please upload a valid audio file.''])"
  using assms by (simp add: processFile_def processFile_payloads_def)

lemma example_text_file_type:
  "\<not> startsWith (file_type example_text_file) (js ''audio/'') \<and>
   \<not> startsWith (file_type example_text_file) (js ''video/'')"
  by (simp add: example_text_file_def startsWith_def js_def)

theorem non_media_file_rejected_witness:
  "\<not> startsWith (file_type example_text_file) (js ''audio/'') \<and>
   \<not> startsWith (file_type example_text_file) (js ''video/'') \<and>
   processFile example_text_file \<lparr>dragActive = False, fileName = None, input_value = []\<rparr> =
     (\<lparr>dragActive = False, fileName = None, input_value = []\<rparr>,
      [Alert ''Please upload a valid audio file.'']) \<and>
   processFile_payloads example_text_file (Some (js ''data:text/plain;base64,aGk=''))
     \<lparr>dragActive = False, fileName = None, input_value = []\<rparr> = []"
  using example_text_file_type
    non_media_file_rejected
      [where f = example_text_file
         and reader_result = "Some (js ''data:text/plain;base64,aGk='')"
         and up = "\<lparr>dragActive = False, fileName = None, input_value = []\<rparr>"
         and fs = "[]"]
  by simp


section \<open>The session\<close>

lemmas app_defs =
  handleAudioReady_def handleReset_def toggleDarkMode_def handleTranscribe_begin_def
  handleTranscribe_settle_def tabs_section_def input_section_def results_section_def
  processing_section_def error_banner_def handleTranscribe_begin_from_def
  toggleDarkMode_from_def

lemmas run_defs = commit_def capture_def settle_first_def

lemmas example_defs =
  example_processing_def example_ready_def initial_system_def initial_state_def
  example_payload_def example_payload2_def example_file_def run_defs

lemma handleTranscribe_begin_from_same:
  "handleTranscribe_begin_from s s = handleTranscribe_begin s"
  by (simp add: handleTranscribe_begin_from_def handleTranscribe_begin_def)

subsection \<open>Runs with a render after every step: one call in flight exactly while processing\<close>






subsection \<open>The concrete runs\<close>














text \<open>
  C5. A capture arriving while the status is idle or error leaves the session ready:
  it holds the new payload, the previous response and error message are gone, Generate
  Transcript is offered, and neither the error banner, the spinner nor a result is
  shown. (\<open>App\<close> has no status of its own for this: the status stays as it was.)
\<close>

theorem capture_gives_ready:
  assumes "status s = Idle \<or> status s = Error"
  shows "audioData (handleAudioReady d s) = Some d \<and>
         result (handleAudioReady d s) = JNull \<and>
         error (handleAudioReady d s) = None \<and>
         status (handleAudioReady d s) = status s \<and>
         control_enabled (handleAudioReady d s) GenerateTranscript \<and>
         \<not> error_banner (handleAudioReady d s) \<and>
         \<not> processing_section (handleAudioReady d s) \<and>
         \<not> results_section (handleAudioReady d s)"
  using assms by (auto simp: app_defs)

theorem capture_gives_ready_witness:
  "(status ((initial_state False)\<lparr>status := Error, result := example_response\<rparr>) = Idle \<or>
    status ((initial_state False)\<lparr>status := Error, result := example_response\<rparr>) = Error) \<and>
   audioData (handleAudioReady example_payload
      ((initial_state False)\<lparr>status := Error, result := example_response\<rparr>)) = Some example_payload \<and>
   result (handleAudioReady example_payload
      ((initial_state False)\<lparr>status := Error, result := example_response\<rparr>)) = JNull \<and>
   control_enabled (handleAudioReady example_payload
      ((initial_state False)\<lparr>status := Error, result := example_response\<rparr>)) GenerateTranscript"
  using capture_gives_ready
    [of "(initial_state False)\<lparr>status := Error, result := example_response\<rparr>" example_payload]
  by simp

text \<open>
  An unparseable response ends in the status success with the empty array as result;
  the results section is rendered, and the transcript view throws.
\<close>

lemma parseJson_not_json_value: "parseJson (js ''not json'') = JArray []"
  by code_simp

lemma unparseable_response_breaks_view:
  "transcribeAudio (Some (js ''key'')) (\<lambda>req. Inr (Some (js ''not json'')) :: unit + jsstring option)
       base64Audio mime = (Inr (JArray []), [build_request base64Audio mime]) \<and>
   status (handleTranscribe_settle (Inr (JArray []) :: unit thrown + json) s) = Success \<and>
   results_section (handleTranscribe_settle (Inr (JArray []) :: unit thrown + json) s) \<and>
   rendered_segments (result (handleTranscribe_settle (Inr (JArray []) :: unit thrown + json) s))
     = Inl TypeError"
proof -
  have "js ''key'' \<noteq> []" "js ''not json'' \<noteq> []"
    by (simp_all add: js_def)
  then show ?thesis
    by (simp add: transcribeAudio_def parseJson_not_json_value handleTranscribe_settle_def
          results_section_def rendered_segments_def)
qed

text \<open>
  C8. When the transcription attempt fails (the service call throws, the response has
  no text, or the credential is missing), \<open>handleTranscribe\<close> ends with the status
  error and the generic message, and the payload is still held; Generate Transcript is
  offered again (unless a result was showing before).
\<close>

theorem transport_failure_keeps_payload:
  assumes "audioData s = Some d"
    and "transcribeAudio API_KEY generateContent (base64 d) (mimeType d) = (Inl err, calls)"
  shows "handleTranscribe API_KEY generateContent s =
           (s\<lparr>status := Error, error := Some TRANSCRIPTION_FAILED\<rparr>, calls) \<and>
         status (fst (handleTranscribe API_KEY generateContent s)) = Error \<and>
         audioData (fst (handleTranscribe API_KEY generateContent s)) = Some d \<and>
         control_enabled (fst (handleTranscribe API_KEY generateContent s)) GenerateTranscript
           = (\<not> truthy (result s))"
  using assms
  by (simp add: handleTranscribe_def handleTranscribe_begin_def handleTranscribe_settle_def
        input_section_def)

lemma example_ready_payload:
  "audioData (app example_ready) = Some example_payload \<and> result (app example_ready) = JNull"
  by (simp add: example_defs app_defs)

lemma service_throws:
  "\<not> falsy_string API_KEY \<Longrightarrow> generateContent (build_request base64Audio mime) = Inl e \<Longrightarrow>
   transcribeAudio API_KEY generateContent base64Audio mime =
     (Inl (ServiceError e), [build_request base64Audio mime])"
  by (simp add: transcribeAudio_def)

theorem transport_failure_keeps_payload_witness:
  "audioData (app example_ready) = Some example_payload \<and>
   transcribeAudio (Some (js ''key'')) (\<lambda>req. Inl ())
       (base64 example_payload) (mimeType example_payload) =
     (Inl (ServiceError ()),
      [build_request (base64 example_payload) (mimeType example_payload)]) \<and>
   status (fst (handleTranscribe (Some (js ''key'')) (\<lambda>req. Inl ()) (app example_ready))) = Error \<and>
   audioData (fst (handleTranscribe (Some (js ''key'')) (\<lambda>req. Inl ()) (app example_ready)))
     = Some example_payload \<and>
   control_enabled (fst (handleTranscribe (Some (js ''key'')) (\<lambda>req. Inl ()) (app example_ready)))
     GenerateTranscript"
proof -
  have k: "transcribeAudio (Some (js ''key'')) (\<lambda>req. Inl ())
       (base64 example_payload) (mimeType example_payload) =
     (Inl (ServiceError ()),
      [build_request (base64 example_payload) (mimeType example_payload)])"
    by (rule service_throws) (simp_all add: js_def)
  have p: "audioData (app example_ready) = Some example_payload"
    by (simp add: example_ready_payload)
  have r: "\<not> truthy (result (app example_ready))"
    by (simp add: example_ready_payload)
  show ?thesis
    using k p r transport_failure_keeps_payload [OF p k]
    by blast
qed

text \<open>
  C10. The uploader's Remove button clears the uploader's file name and its input
  element and nothing else: the session is the same, it still holds the payload, the
  Generate Transcript button is offered as before, and starting a transcription sends
  the removed file's audio.
\<close>

theorem clear_keeps_payload:
  assumes "audioData (session pg) = Some d"
  shows "session (click_remove_file pg) = session pg \<and>
         audioData (session (click_remove_file pg)) = Some d \<and>
         file_uploader (click_remove_file pg) =
           (file_uploader pg)\<lparr>fileName := None, input_value := []\<rparr> \<and>
         control_enabled (session (click_remove_file pg)) GenerateTranscript =
           control_enabled (session pg) GenerateTranscript \<and>
         snd (handleTranscribe_begin (session (click_remove_file pg))) =
           Some (base64 d, mimeType d)"
  using assms by (simp add: click_remove_file_def handleClear_def handleTranscribe_begin_def)

theorem clear_keeps_payload_witness:
  "audioData (session example_page) = Some example_payload \<and>
   session (click_remove_file example_page) = session example_page \<and>
   fileName (file_uploader (click_remove_file example_page)) = None \<and>
   input_value (file_uploader (click_remove_file example_page)) = [] \<and>
   control_enabled (session (click_remove_file example_page)) GenerateTranscript \<and>
   snd (handleTranscribe_begin (session (click_remove_file example_page))) =
     Some (base64 example_payload, mimeType example_payload)"
proof -
  have p: "audioData (session example_page) = Some example_payload"
    by (simp add: example_page_def example_ready_payload)
  have g: "control_enabled (session example_page) GenerateTranscript"
    by (simp add: example_page_def example_defs app_defs)
  have u: "fileName ((file_uploader example_page)\<lparr>fileName := None, input_value := []\<rparr>) = None"
    "input_value ((file_uploader example_page)\<lparr>fileName := None, input_value := []\<rparr>) = []"
    by simp_all
  from clear_keeps_payload [OF p] have
    "file_uploader (click_remove_file example_page) =
       (file_uploader example_page)\<lparr>fileName := None, input_value := []\<rparr>"
    by blast
  with u have "fileName (file_uploader (click_remove_file example_page)) = None"
    "input_value (file_uploader (click_remove_file example_page)) = []"
    by simp_all
  with p g clear_keeps_payload [OF p] show ?thesis
    by blast
qed

end
